theory Spec2Isabelle
  imports Main "HOL-Library.Sublist"
begin

text \<open>
  A model of the reporter of a browser-test runner (\<open>lib/reporter/index.js\<close>) and of the
  handlers of its text assertion (\<open>lib/api/expect/text.js\<close>): which errors are counted,
  how a failure is registered in the result ledger, how the failure message is rendered,
  when a failure screenshot is taken, and what the assertion's handlers for a found and
  for an absent element do. Mutation is modelled by passing the object and returning the
  new one.
\<close>

section \<open>JavaScript values\<close>

text \<open>
  The flags read from an error object are ordinary JavaScript properties: they may be
  missing (\<open>undefined\<close>), \<open>null\<close>, a boolean, a number (\<open>NaN\<close> apart, numbers are
  integral here), a string or a reference to an object. The operators \<open>||\<close> and \<open>if\<close>
  look at their truthiness only.
\<close>

datatype jsval = JUndefined | JNull | JBool bool | JNum int | JNaN | JStr string | JObject nat

fun truthy :: "jsval \<Rightarrow> bool" where
  "truthy JUndefined = False"
| "truthy JNull = False"
| "truthy (JBool b) = b"
| "truthy (JNum n) = (n \<noteq> 0)"
| "truthy JNaN = False"
| "truthy (JStr s) = (s \<noteq> [])"
| "truthy (JObject ref) = True"

text \<open>\<open>a || b\<close>: the left operand when it is truthy, the right one otherwise.\<close>

definition js_or :: "jsval \<Rightarrow> jsval \<Rightarrow> jsval" where
  "js_or a b = (if truthy a then a else b)"

text \<open>
  Modelled from the spec: \<open>Utils.isUndefined\<close> lives in \<open>lib/utils\<close>, which is not
  among the sources; the flag is "unset" exactly when the property is \<open>undefined\<close>.
\<close>

definition isUndefined :: "jsval \<Rightarrow> bool" where
  "isUndefined v = (v = JUndefined)"

section \<open>Decimal rendering of numbers\<close>

text \<open>
  String concatenation and template literals render an integral number in decimal,
  with a leading minus sign when it is negative.
\<close>

definition digit_char :: "nat \<Rightarrow> char" where
  "digit_char d = ''0123456789'' ! (d mod 10)"

fun show_nat :: "nat \<Rightarrow> string" where
  "show_nat n = (if n < 10 then [digit_char n] else show_nat (n div 10) @ [digit_char (n mod 10)])"

declare show_nat.simps [simp del]

definition show_int :: "int \<Rightarrow> string" where
  "show_int i = (if i < 0 then CHR ''-'' # show_nat (nat (- i)) else show_nat (nat i))"

section \<open>The reporter's data\<close>

text \<open>An error object, as far as the reporter reads it.\<close>

record js_error =
  errorMessage :: string
  incrementErrorCount :: jsval
  incrementErrorsNo :: jsval
  detailedLogging :: jsval

text \<open>One logged assertion outcome (\<open>failure\<close> is \<open>false\<close> or the failure text).\<close>

record assertion_entry =
  fullMsg :: string
  failure :: "string option"
  stackTrace :: string

text \<open>
  The result object of the current test case (\<open>testResults.currentTestResult\<close>). The
  counter \<open>passed\<close> is called \<open>passedCount\<close> here and the screenshot list
  \<open>screenshotFiles\<close>, to keep them apart from the assertion's \<open>passed\<close> flag and the
  \<open>screenshots\<close> settings.
\<close>

record test_result =
  failed :: int
  errors :: int
  passedCount :: int
  skipped :: int
  tests :: int
  lastError :: "js_error option"
  assertions :: "assertion_entry list"
  screenshotFiles :: "string list"

record test_case =
  testName :: string

text \<open>
  The \<open>TestResults\<close> object held in \<open>this.testResults\<close>; its field \<open>currentTest\<close> is
  called \<open>resultsCurrentTest\<close> (the reporter has a getter of the same name).
\<close>

record test_results =
  resultsCurrentTest :: "test_case option"
  moduleKey :: string
  groupName :: string
  currentTestResult :: test_result
  reportPrefix :: string

record screenshot_settings =
  enabled :: bool
  on_error :: bool
  on_failure :: bool
  path :: string

record settings =
  unit_tests_mode :: bool
  detailed_output :: bool
  start_session :: bool
  screenshots :: "screenshot_settings option"

record run_context =
  contextUnitTestsMode :: bool

text \<open>
  The suite-retry registry is an external collaborator; the reporter only calls its query
  \<open>shouldRetryTest(name)\<close>.
\<close>

record suite_retries =
  shouldRetryTest :: "string \<Rightarrow> bool"

record reporter =
  settings :: settings
  suiteRetries :: "suite_retries option"
  suiteName :: string
  testResults :: test_results
  currentContext :: "run_context option"

text \<open>The object returned by the getter \<open>currentTest\<close>.\<close>

record current_test =
  name :: string
  module :: string
  group :: string
  results :: test_result

section \<open>The reporter's getters\<close>

definition currentTestCase :: "reporter \<Rightarrow> test_case option" where
  "currentTestCase rep = resultsCurrentTest (testResults rep)"

definition currentTest :: "reporter \<Rightarrow> current_test option" where
  "currentTest rep =
     (case currentTestCase rep of
        None \<Rightarrow> None
      | Some tc \<Rightarrow>
          Some \<lparr>name = testName tc,
                module = moduleKey (testResults rep),
                group = groupName (testResults rep),
                results = currentTestResult (testResults rep)\<rparr>)"

definition unitTestsMode :: "reporter \<Rightarrow> bool" where
  "unitTestsMode rep =
     (case currentContext rep of
        Some c \<Rightarrow> contextUnitTestsMode c
      | None \<Rightarrow> unit_tests_mode (settings rep))"

section \<open>shouldIncrementTotalCount\<close>

text \<open>
  The local \<open>shouldRetryTestcase\<close>: the chain
  \<open>this.currentTest && this.suiteRetries && this.suiteRetries.shouldRetryTest(...)\<close>,
  read for its truthiness by the \<open>if\<close> that follows.
\<close>

definition shouldRetryTestcase :: "reporter \<Rightarrow> bool" where
  "shouldRetryTestcase rep =
     (case currentTest rep of
        None \<Rightarrow> False
      | Some ct \<Rightarrow>
          (case suiteRetries rep of
             None \<Rightarrow> False
           | Some sr \<Rightarrow> shouldRetryTest sr (name ct)))"

definition shouldIncrementTotalCount :: "reporter \<Rightarrow> js_error \<Rightarrow> jsval" where
  "shouldIncrementTotalCount rep err =
     (let incrementTotalCount =
            js_or (incrementErrorCount err) (JBool (isUndefined (incrementErrorCount err)))
      in if truthy (incrementErrorsNo err) \<or> shouldRetryTestcase rep
         then JBool False
         else incrementTotalCount)"

section \<open>The result ledger\<close>

text \<open>
  Modelled from the spec: the class \<open>TestResults\<close> (\<open>lib/reporter/results.js\<close>) is not
  among the sources. \<open>setLastError(err)\<close> replaces \<open>lastError\<close> and returns the ledger (the
  reporter chains a call on its result).
\<close>

definition setLastError :: "js_error \<Rightarrow> test_results \<Rightarrow> test_results" where
  "setLastError err tr = tr\<lparr>currentTestResult := (currentTestResult tr)\<lparr>lastError := Some err\<rparr>\<rparr>"

text \<open>
  Modelled from the spec: \<open>incrementFailedCount(shouldCount)\<close> of the absent \<open>TestResults\<close>
  mutates the counts of the current test result only if \<open>shouldCount\<close> is true.
\<close>

definition incrementFailedCount :: "jsval \<Rightarrow> test_results \<Rightarrow> test_results" where
  "incrementFailedCount shouldCount tr =
     (if truthy shouldCount
      then tr\<lparr>currentTestResult := (currentTestResult tr)\<lparr>failed := failed (currentTestResult tr) + 1\<rparr>\<rparr>
      else tr)"

text \<open>
  Modelled from the spec: \<open>logAssertion(outcome)\<close> of the absent \<open>TestResults\<close> appends to
  the assertion log of the current test result, unconditionally.
\<close>

definition logAssertion :: "assertion_entry \<Rightarrow> test_results \<Rightarrow> test_results" where
  "logAssertion result tr =
     tr\<lparr>currentTestResult := (currentTestResult tr)\<lparr>assertions := assertions (currentTestResult tr) @ [result]\<rparr>\<rparr>"

text \<open>
  Modelled from the spec: \<open>logScreenshotFile(ref)\<close> of the absent \<open>TestResults\<close> appends to
  the screenshot log of the current test result.
\<close>

definition logScreenshotFile :: "string \<Rightarrow> test_results \<Rightarrow> test_results" where
  "logScreenshotFile fileName tr =
     tr\<lparr>currentTestResult :=
          (currentTestResult tr)\<lparr>screenshotFiles := screenshotFiles (currentTestResult tr) @ [fileName]\<rparr>\<rparr>"

section \<open>Results logging\<close>

definition logAssertResult :: "reporter \<Rightarrow> assertion_entry \<Rightarrow> reporter" where
  "logAssertResult rep result = rep\<lparr>testResults := logAssertion result (testResults rep)\<rparr>"

text \<open>
  \<open>this.testResults.setLastError(err).incrementFailedCount(this.shouldIncrementTotalCount(err))\<close>:
  the receiver \<open>setLastError(err)\<close> is evaluated first, the argument after it.
\<close>

definition registerFailed :: "reporter \<Rightarrow> js_error \<Rightarrow> reporter" where
  "registerFailed rep err =
     (let rep1 = rep\<lparr>testResults := setLastError err (testResults rep)\<rparr>;
          shouldCount = shouldIncrementTotalCount rep1 err
      in rep1\<lparr>testResults := incrementFailedCount shouldCount (testResults rep1)\<rparr>)"

section \<open>getFailureMessage\<close>

text \<open>
  \<open>Logger.colors\<close> belongs to \<open>lib/utils\<close>, outside the sources: the three colour functions
  are parameters. Each receives the count and returns the text that the template literal
  splices in.
\<close>

record logger_colors =
  red :: "int \<Rightarrow> string"
  green :: "int \<Rightarrow> string"
  blue :: "int \<Rightarrow> string"

text \<open>With colours switched off the count is spliced in as it is, in decimal.\<close>

definition plain_colors :: logger_colors where
  "plain_colors = \<lparr>red = show_int, green = show_int, blue = show_int\<rparr>"

text \<open>\<open>Array.prototype.join(separator)\<close>.\<close>

fun join :: "string \<Rightarrow> string list \<Rightarrow> string" where
  "join sep [] = []"
| "join sep [x] = x"
| "join sep (x # y # ys) = x @ sep @ join sep (y # ys)"

text \<open>
  \<open>.replace(/,([^,]*)$/g, function(p0, p1) { return ` and ${p1}`; })\<close>. The scan runs from
  the left; a match starts at a comma that no further comma follows up to the end of the
  string, the group \<open>p1\<close> is everything after that comma, and the match is replaced by
  \<open>" and "\<close> followed by \<open>p1\<close>. A match reaches the end of the string, so there is at
  most one.
\<close>

fun replace_last_comma :: "string \<Rightarrow> string" where
  "replace_last_comma [] = []"
| "replace_last_comma (c # cs) =
     (if c = CHR '','' \<and> CHR '','' \<notin> set cs
      then '' and '' @ cs
      else c # replace_last_comma cs)"

text \<open>The local array \<open>failureMsg\<close> after the four conditional pushes.\<close>

definition failureMsg :: "logger_colors \<Rightarrow> test_result \<Rightarrow> string list" where
  "failureMsg col r =
     (if failed r > 0 then [red col (failed r) @ '' assertions failed''] else []) @
     (if errors r > 0 then [red col (errors r) @ '' errors''] else []) @
     (if passedCount r > 0 then [green col (passedCount r) @ '' passed''] else []) @
     (if skipped r > 0 then [blue col (skipped r) @ '' skipped''] else [])"

definition getFailureMessage :: "logger_colors \<Rightarrow> reporter \<Rightarrow> string" where
  "getFailureMessage col rep =
     replace_last_comma (join '', '' (failureMsg col (currentTestResult (testResults rep))))"

section \<open>Failure screenshots\<close>

definition shouldTakeFailureScreenshot :: "reporter \<Rightarrow> bool" where
  "shouldTakeFailureScreenshot rep =
     (\<not> unitTestsMode rep \<and>
      (case screenshots (settings rep) of
         None \<Rightarrow> False
       | Some s \<Rightarrow> enabled s \<and> on_failure s))"

text \<open>
  What a call of the async method does before it returns, in order: writes to the ledger
  and calls of \<open>ScreenshotsService.saveScreenshot\<close>.
\<close>

datatype effect = LedgerLogScreenshot string | ServiceSaveScreenshot string

datatype js_exception = TypeError

text \<open>
  The promise the method returns: already resolved, waiting for the screenshot service
  to call \<open>resolve\<close> for the named file, or rejected by an exception in the body.
\<close>

datatype promise = Resolved | AwaitingService string | Rejected js_exception

text \<open>The service completes a request by calling the callback it was given: \<open>resolve\<close>.\<close>

fun serviceCompletes :: "promise \<Rightarrow> promise" where
  "serviceCompletes (AwaitingService f) = Resolved"
| "serviceCompletes p = p"

text \<open>
  \<open>Screenshots.getFileName\<close> belongs to \<open>lib/utils\<close>, outside the sources, and is a
  parameter. Reading \<open>this.currentTest.module\<close> when \<open>currentTest\<close> is \<open>null\<close> throws.
\<close>

definition saveFailureScreenshot ::
  "(string \<Rightarrow> bool \<Rightarrow> string \<Rightarrow> string) \<Rightarrow> reporter \<Rightarrow> bool \<Rightarrow> reporter \<times> effect list \<times> promise" where
  "saveFailureScreenshot getFileName rep isError =
     (if shouldTakeFailureScreenshot rep then
        (case (currentTest rep, screenshots (settings rep)) of
           (Some ct, Some s) \<Rightarrow>
             (let prefix = module ct @ ''/'' @ name ct @ ''-test-'' @ show_int (tests (results ct));
                  fileName = getFileName prefix isError (path s)
              in (rep\<lparr>testResults := logScreenshotFile fileName (testResults rep)\<rparr>,
                  [LedgerLogScreenshot fileName, ServiceSaveScreenshot fileName],
                  AwaitingService fileName))
         | _ \<Rightarrow> (rep, [], Rejected TypeError))
      else (rep, [], Resolved))"

section \<open>The text assertion\<close>

text \<open>The fields of a \<open>TextAssertion\<close> that its two handlers read or write.\<close>

record text_assertion =
  retries :: int
  negate :: bool
  passed :: bool
  waitForMs :: jsval
  elapsedTime :: jsval
  messageParts :: "string list"

text \<open>
  \<open>hasCondition()\<close> and \<open>getElapsedTime()\<close> are methods of the base class
  (\<open>_baseAssertion.js\<close>, outside the sources); they are parameters, applied to \<open>this\<close>.
\<close>

record base_assertion =
  hasCondition :: "text_assertion \<Rightarrow> bool"
  getElapsedTime :: "text_assertion \<Rightarrow> int"

definition elementFound :: "base_assertion \<Rightarrow> text_assertion \<Rightarrow> text_assertion" where
  "elementFound base a =
     (if retries a > 0 \<and> negate a then a
      else if passed a \<and> truthy (waitForMs a) then
        (let message = (if hasCondition base a then ''condition was met'' else '''');
             t = getElapsedTime base a
         in a\<lparr>elapsedTime := JNum t,
               messageParts := messageParts a @ ['' - '' @ message @ '' in '' @ show_int t @ ''ms'']\<rparr>)
      else a)"

definition elementNotFound :: "text_assertion \<Rightarrow> text_assertion" where
  "elementNotFound a = a\<lparr>passed := False\<rparr>"

section \<open>The poll loop\<close>

text \<open>
  The states of an assertion, as the spec's data model names them.
\<close>

datatype assertion_state = PENDING | EXECUTING | RETRY_SCHEDULED | PASSED | FAILED | TIMED_OUT

text \<open>Exhausting the timeout budget ends in \<open>FAILED\<close> or \<open>TIMED_OUT\<close>.\<close>

definition terminal_failure :: "assertion_state \<Rightarrow> bool" where
  "terminal_failure s = (s = FAILED \<or> s = TIMED_OUT)"

text \<open>
  What the remote check answers at one poll: the target is absent, or it is there and the
  comparator holds or does not hold on the observed value.
\<close>

datatype remote_response = TargetAbsent | Observed bool

text \<open>
  Modelled from the spec: the timeout budget of the absent base class
  (\<open>_baseAssertion.js\<close>) is the configured \<open>waitForMs\<close>, and zero when none is configured.
\<close>

definition timeoutBudgetMs :: "text_assertion \<Rightarrow> int" where
  "timeoutBudgetMs a = (case waitForMs a of JNum ms \<Rightarrow> ms | _ \<Rightarrow> 0)"

text \<open>
  Modelled from the spec: the decision on a response, of the poll loop of the absent base
  class (\<open>_baseAssertion.js\<close>), after section 4.1. The predicate is applied to the
  observed value: the assertion has passed if the condition holds and it is not negated,
  or the condition does not hold and it is negated. The handler \<open>elementFound\<close> then
  runs. A passed assertion is \<open>PASSED\<close>; otherwise, if the elapsed time since the first
  attempt has reached the timeout budget the assertion is \<open>FAILED\<close>, else a retry is
  scheduled. A target that is absent altogether is recorded at once, by
  \<open>elementNotFound\<close>, as the terminal condition.
\<close>

definition onResponse ::
  "base_assertion \<Rightarrow> remote_response \<Rightarrow> text_assertion \<Rightarrow> text_assertion \<times> assertion_state" where
  "onResponse base response a =
     (case response of
        TargetAbsent \<Rightarrow> (elementNotFound a, FAILED)
      | Observed holds \<Rightarrow>
          (let a1 = a\<lparr>passed := (holds \<noteq> negate a)\<rparr>;
               a2 = elementFound base a1
           in if passed a2 then (a2, PASSED)
              else if timeoutBudgetMs a2 \<le> getElapsedTime base a2 then (a2, FAILED)
              else (a2, RETRY_SCHEDULED)))"

text \<open>
  One poll, as the loop meets it: the elapsed time since the first attempt when the
  response arrives, the value the base class holds in \<open>retries\<close> at that moment (the
  spec does not say how the counter evolves, so every poll brings its own), and the
  response.
\<close>

record poll =
  pollElapsedMs :: int
  pollRetries :: int
  pollResponse :: remote_response

text \<open>The base-class methods at a poll; \<open>conditioned\<close> is what \<open>hasCondition()\<close> answers.\<close>

definition pollBase :: "bool \<Rightarrow> poll \<Rightarrow> base_assertion" where
  "pollBase conditioned p =
     \<lparr>hasCondition = (\<lambda>a. conditioned), getElapsedTime = (\<lambda>a. pollElapsedMs p)\<rparr>"

text \<open>
  Modelled from the spec: \<open>evaluate(assertion)\<close> over the successive polls. A scheduled
  retry returns to \<open>EXECUTING\<close> and takes the next response; a terminal state is final;
  with no response left the assertion is still \<open>EXECUTING\<close>.
\<close>

fun evaluate :: "bool \<Rightarrow> poll list \<Rightarrow> text_assertion \<Rightarrow> text_assertion \<times> assertion_state" where
  "evaluate conditioned [] a = (a, EXECUTING)"
| "evaluate conditioned (p # polls) a =
     (let (a', s) = onResponse (pollBase conditioned p) (pollResponse p) (a\<lparr>retries := pollRetries p\<rparr>)
      in if s = RETRY_SCHEDULED then evaluate conditioned polls a' else (a', s))"

section \<open>Reading a rendered message\<close>

text \<open>
  A count of zero in a rendered text shows as a number that starts with the digit
  \<open>0\<close>: a character \<open>0\<close> that no digit precedes. \<open>zero_count_in d s\<close> looks for one
  in \<open>s\<close>; the flag \<open>d\<close> tells whether the character before \<open>s\<close> is a digit.
\<close>

definition is_digit :: "char \<Rightarrow> bool" where
  "is_digit c = (c \<in> set ''0123456789'')"

fun zero_count_in :: "bool \<Rightarrow> string \<Rightarrow> bool" where
  "zero_count_in d [] = False"
| "zero_count_in d (c # cs) = ((c = CHR ''0'' \<and> \<not> d) \<or> zero_count_in (is_digit c) cs)"

section \<open>Sample inputs\<close>

text \<open>Concrete objects on which the theorems below are exercised.\<close>

definition sample_result :: test_result where
  "sample_result = \<lparr>failed = 2, errors = 1, passedCount = 0, skipped = 1, tests = 3,
     lastError = None, assertions = [], screenshotFiles = []\<rparr>"

definition sample_ledger :: test_results where
  "sample_ledger = \<lparr>resultsCurrentTest = Some \<lparr>testName = ''demoTest''\<rparr>,
     moduleKey = ''sampleModule'', groupName = ''sampleGroup'',
     currentTestResult = sample_result, reportPrefix = []\<rparr>"

definition sample_settings :: settings where
  "sample_settings = \<lparr>unit_tests_mode = False, detailed_output = True, start_session = True,
     screenshots = Some \<lparr>enabled = True, on_error = False, on_failure = True, path = ''shots''\<rparr>\<rparr>"

definition retry_all :: suite_retries where
  "retry_all = \<lparr>shouldRetryTest = (\<lambda>n. True)\<rparr>"

definition retry_none :: suite_retries where
  "retry_none = \<lparr>shouldRetryTest = (\<lambda>n. False)\<rparr>"

definition sample_reporter :: "suite_retries option \<Rightarrow> reporter" where
  "sample_reporter sr = \<lparr>settings = sample_settings, suiteRetries = sr, suiteName = ''suite'',
     testResults = sample_ledger, currentContext = None\<rparr>"

text \<open>The same reporter, with a registry, before any test case has been made current.\<close>

definition sample_reporter_no_test :: reporter where
  "sample_reporter_no_test =
     (sample_reporter (Some retry_all))\<lparr>testResults := sample_ledger\<lparr>resultsCurrentTest := None\<rparr>\<rparr>"

text \<open>The same reporter inside a context that runs in unit-test mode.\<close>

definition sample_reporter_unit :: reporter where
  "sample_reporter_unit =
     (sample_reporter None)\<lparr>currentContext := Some \<lparr>contextUnitTestsMode = True\<rparr>\<rparr>"

definition sample_error :: "jsval \<Rightarrow> jsval \<Rightarrow> js_error" where
  "sample_error count no = \<lparr>errorMessage = ''boom'', incrementErrorCount = count,
     incrementErrorsNo = no, detailedLogging = JUndefined\<rparr>"

definition sample_entry :: assertion_entry where
  "sample_entry = \<lparr>fullMsg = ''Expected element <#main> text to equal: x'',
     failure = Some ''Expected x but got: y'', stackTrace = []\<rparr>"

definition sample_getFileName :: "string \<Rightarrow> bool \<Rightarrow> string \<Rightarrow> string" where
  "sample_getFileName pfx isError dir =
     dir @ ''/'' @ pfx @ (if isError then ''_ERROR'' else ''_FAILED'') @ ''.png''"

definition sample_base :: base_assertion where
  "sample_base = \<lparr>hasCondition = (\<lambda>a. True), getElapsedTime = (\<lambda>a. 250)\<rparr>"

definition sample_base_unconditioned :: base_assertion where
  "sample_base_unconditioned = \<lparr>hasCondition = (\<lambda>a. False), getElapsedTime = (\<lambda>a. 250)\<rparr>"

text \<open>
  A text assertion that has passed with a timeout of one second configured, after
  \<open>n\<close> retries, negated or not.
\<close>

definition sample_assertion :: "int \<Rightarrow> bool \<Rightarrow> text_assertion" where
  "sample_assertion n neg = \<lparr>retries = n, negate = neg, passed = True, waitForMs = JNum 1000,
     elapsedTime = JUndefined, messageParts = [''Expected element <%s> text to'']\<rparr>"


text \<open>
  A poll answered \<open>t\<close> milliseconds after the first attempt, with \<open>n\<close> in the retry
  counter.
\<close>

definition sample_poll :: "int \<Rightarrow> int \<Rightarrow> remote_response \<Rightarrow> poll" where
  "sample_poll t n r = \<lparr>pollElapsedMs = t, pollRetries = n, pollResponse = r\<rparr>"

section \<open>Counting an error: shouldIncrementTotalCount\<close>

lemma shouldRetryTestcase_iff:
  "shouldRetryTestcase rep \<longleftrightarrow>
     (\<exists>ct sr. currentTest rep = Some ct \<and> suiteRetries rep = Some sr \<and>
              shouldRetryTest sr (name ct))"
  by (simp add: shouldRetryTestcase_def split: option.splits)

lemma js_or_flag_True:
  "js_or v (JBool (isUndefined v)) = JBool True \<longleftrightarrow> v = JBool True \<or> v = JUndefined"
  by (cases v) (auto simp: js_or_def isUndefined_def)

lemma js_or_flag_truthy:
  "truthy (js_or v (JBool (isUndefined v))) \<longleftrightarrow> truthy v \<or> v = JUndefined"
  by (cases v) (auto simp: js_or_def isUndefined_def)

text \<open>
  C1. \<open>shouldIncrementTotalCount(err)\<close> returns \<open>true\<close> exactly when
  \<open>err.incrementErrorCount\<close> is \<open>true\<close> or \<open>undefined\<close>, the flag \<open>err.incrementErrorsNo\<close>
  is not set (not truthy) and the current test is not scheduled for retry by the
  suite-retry registry (there is a current test, there is a registry, and the registry
  answers yes for the test's name). The same holds read for truthiness: the result is
  truthy exactly when \<open>err.incrementErrorCount\<close> is truthy or \<open>undefined\<close> and neither
  suppression applies. A set \<open>err.incrementErrorsNo\<close> forces the result \<open>false\<close> whatever
  the retry status.
\<close>

theorem shouldIncrementTotalCount_exact:
  "(shouldIncrementTotalCount rep err = JBool True \<longleftrightarrow>
      (incrementErrorCount err = JBool True \<or> incrementErrorCount err = JUndefined) \<and>
      \<not> truthy (incrementErrorsNo err) \<and>
      \<not> (\<exists>ct sr. currentTest rep = Some ct \<and> suiteRetries rep = Some sr \<and>
                  shouldRetryTest sr (name ct)))
   \<and> (truthy (shouldIncrementTotalCount rep err) \<longleftrightarrow>
      (truthy (incrementErrorCount err) \<or> incrementErrorCount err = JUndefined) \<and>
      \<not> truthy (incrementErrorsNo err) \<and>
      \<not> (\<exists>ct sr. currentTest rep = Some ct \<and> suiteRetries rep = Some sr \<and>
                  shouldRetryTest sr (name ct)))
   \<and> (truthy (incrementErrorsNo err) \<longrightarrow> shouldIncrementTotalCount rep err = JBool False)"
proof -
  have retry: "shouldRetryTestcase rep \<longleftrightarrow>
     (\<exists>ct sr. currentTest rep = Some ct \<and> suiteRetries rep = Some sr \<and>
              shouldRetryTest sr (name ct))"
    by (rule shouldRetryTestcase_iff)
  show ?thesis
    unfolding retry [symmetric]
    by (simp add: shouldIncrementTotalCount_def Let_def js_or_flag_True js_or_flag_truthy)
qed

theorem shouldIncrementTotalCount_exact_witness:
  "truthy (incrementErrorsNo (sample_error JUndefined (JBool True))) \<and>
   shouldIncrementTotalCount (sample_reporter (Some retry_none))
     (sample_error JUndefined (JBool True)) = JBool False \<and>
   shouldIncrementTotalCount (sample_reporter (Some retry_none))
     (sample_error JUndefined JUndefined) = JBool True \<and>
   shouldIncrementTotalCount (sample_reporter (Some retry_all))
     (sample_error JUndefined JUndefined) \<noteq> JBool True"
  using shouldIncrementTotalCount_exact
          [of "sample_reporter (Some retry_none)" "sample_error JUndefined (JBool True)"]
        shouldIncrementTotalCount_exact
          [of "sample_reporter (Some retry_none)" "sample_error JUndefined JUndefined"]
        shouldIncrementTotalCount_exact
          [of "sample_reporter (Some retry_all)" "sample_error JUndefined JUndefined"]
  by (simp add: sample_error_def sample_reporter_def sample_ledger_def retry_none_def
        retry_all_def currentTest_def currentTestCase_def)

text \<open>
  C9. Retry-based suppression applies only when a current test case exists and a
  suite-retry registry was supplied. If either is absent, an error whose
  \<open>incrementErrorCount\<close> flag is unset and whose \<open>incrementErrorsNo\<close> flag is not set is
  counted; without a current test the answer does not depend on the registry at all; and
  whenever the registry turns a counted error into a suppressed one, both the current
  test and the registry exist and the registry schedules the test's name for retry.
\<close>

theorem retry_suppression_needs_test_and_registry:
  "(currentTest rep = None \<or> suiteRetries rep = None \<longrightarrow>
      incrementErrorCount err = JUndefined \<longrightarrow> \<not> truthy (incrementErrorsNo err) \<longrightarrow>
      shouldIncrementTotalCount rep err = JBool True)
   \<and> (currentTest rep = None \<longrightarrow>
      shouldIncrementTotalCount (rep\<lparr>suiteRetries := Some sr\<rparr>) err =
      shouldIncrementTotalCount (rep\<lparr>suiteRetries := None\<rparr>) err)
   \<and> (truthy (shouldIncrementTotalCount (rep\<lparr>suiteRetries := None\<rparr>) err) \<and>
       \<not> truthy (shouldIncrementTotalCount rep err) \<longrightarrow>
      (\<exists>ct reg. currentTest rep = Some ct \<and> suiteRetries rep = Some reg \<and>
                 shouldRetryTest reg (name ct)))"
proof -
  have a: "currentTest rep = None \<or> suiteRetries rep = None \<Longrightarrow> \<not> shouldRetryTestcase rep"
    by (auto simp: shouldRetryTestcase_def split: option.splits)
  have b: "currentTest (rep\<lparr>suiteRetries := x\<rparr>) = currentTest rep" for x
    by (simp add: currentTest_def currentTestCase_def split: option.splits)
  have c: "currentTest rep = None \<Longrightarrow> \<not> shouldRetryTestcase (rep\<lparr>suiteRetries := x\<rparr>)" for x
    by (simp add: shouldRetryTestcase_def b)
  have d: "\<not> shouldRetryTestcase (rep\<lparr>suiteRetries := None\<rparr>)"
    by (simp add: shouldRetryTestcase_def split: option.splits)
  show ?thesis
    using a c d
    by (auto simp: shouldIncrementTotalCount_def Let_def js_or_def isUndefined_def
          shouldRetryTestcase_iff [of rep])
qed

theorem retry_suppression_needs_test_and_registry_witness:
  "currentTest sample_reporter_no_test = None \<and>
   suiteRetries sample_reporter_no_test = Some retry_all \<and>
   shouldRetryTest retry_all ''demoTest'' \<and>
   shouldIncrementTotalCount sample_reporter_no_test (sample_error JUndefined JUndefined) =
     JBool True \<and>
   suiteRetries (sample_reporter None) = None \<and>
   shouldIncrementTotalCount (sample_reporter None) (sample_error JUndefined JUndefined) =
     JBool True"
proof -
  let ?e = "sample_error JUndefined JUndefined"
  have h1: "currentTest sample_reporter_no_test = None"
    by (simp add: sample_reporter_no_test_def currentTest_def currentTestCase_def)
  have h2: "suiteRetries (sample_reporter None) = None"
    by (simp add: sample_reporter_def)
  have e: "incrementErrorCount ?e = JUndefined" "\<not> truthy (incrementErrorsNo ?e)"
    by (simp_all add: sample_error_def)
  have r1: "shouldIncrementTotalCount sample_reporter_no_test ?e = JBool True"
    using retry_suppression_needs_test_and_registry [of sample_reporter_no_test ?e] h1 e
    by blast
  have r2: "shouldIncrementTotalCount (sample_reporter None) ?e = JBool True"
    using retry_suppression_needs_test_and_registry [of "sample_reporter None" ?e] h2 e
    by blast
  have r3: "suiteRetries sample_reporter_no_test = Some retry_all"
    "shouldRetryTest retry_all ''demoTest''"
    by (simp_all add: sample_reporter_no_test_def sample_reporter_def retry_all_def)
  from h1 h2 r1 r2 r3 show ?thesis by simp
qed

section \<open>Registering a failure\<close>

lemma shouldRetryTestcase_ledger:
  "resultsCurrentTest tr' = resultsCurrentTest (testResults rep) \<Longrightarrow>
   shouldRetryTestcase (rep\<lparr>testResults := tr'\<rparr>) = shouldRetryTestcase rep"
  by (simp add: shouldRetryTestcase_def currentTest_def currentTestCase_def split: option.splits)

lemma shouldIncrementTotalCount_ledger:
  "resultsCurrentTest tr' = resultsCurrentTest (testResults rep) \<Longrightarrow>
   shouldIncrementTotalCount (rep\<lparr>testResults := tr'\<rparr>) err = shouldIncrementTotalCount rep err"
  by (simp add: shouldIncrementTotalCount_def shouldRetryTestcase_ledger)

lemma registerFailed_ledger:
  "testResults (registerFailed rep err) =
     incrementFailedCount (shouldIncrementTotalCount rep err) (setLastError err (testResults rep))"
  by (simp add: registerFailed_def Let_def shouldIncrementTotalCount_ledger setLastError_def)

lemma shouldIncrementTotalCount_logAssertResult:
  "shouldIncrementTotalCount (logAssertResult rep result) err = shouldIncrementTotalCount rep err"
  unfolding logAssertResult_def
  by (rule shouldIncrementTotalCount_ledger) (simp add: logAssertion_def)

text \<open>
  C6, as stated, fails: \<open>registerFailed(err)\<close> never reaches \<open>logAssertion\<close>. With the
  current test scheduled for retry the count is suppressed, \<open>counts.failed\<close> keeps its
  value, and the assertion log is as long as before, not one entry longer.
\<close>

theorem registerFailed_suppressed_counterexample:
  "\<not> truthy (shouldIncrementTotalCount (sample_reporter (Some retry_all))
        (sample_error JUndefined JUndefined)) \<and>
   shouldRetryTest retry_all ''demoTest'' \<and>
   failed (currentTestResult (testResults
      (registerFailed (sample_reporter (Some retry_all)) (sample_error JUndefined JUndefined)))) =
     failed (currentTestResult (testResults (sample_reporter (Some retry_all)))) \<and>
   length (assertions (currentTestResult (testResults
      (registerFailed (sample_reporter (Some retry_all)) (sample_error JUndefined JUndefined))))) \<noteq>
     length (assertions (currentTestResult (testResults (sample_reporter (Some retry_all))))) + 1"
  by (simp add: registerFailed_ledger sample_reporter_def sample_ledger_def sample_result_def
        shouldIncrementTotalCount_def shouldRetryTestcase_def currentTest_def currentTestCase_def
        retry_all_def incrementFailedCount_def setLastError_def Let_def)

text \<open>
  C6, amended. When \<open>shouldIncrementTotalCount(err)\<close> is false, \<open>registerFailed(err)\<close>
  replaces \<open>lastError\<close> and leaves both \<open>counts.failed\<close> and the assertion log as they
  are. The audit entry comes from the separate call \<open>logAssertResult(result)\<close>, which
  appends exactly one entry unconditionally; so the pair \<open>logAssertResult(result)\<close>,
  \<open>registerFailed(err)\<close> leaves \<open>counts.failed\<close> unchanged and makes the log one entry
  longer.
\<close>

theorem registerFailed_suppressed:
  assumes "\<not> truthy (shouldIncrementTotalCount rep err)"
  shows "failed (currentTestResult (testResults (registerFailed rep err))) =
           failed (currentTestResult (testResults rep)) \<and>
         assertions (currentTestResult (testResults (registerFailed rep err))) =
           assertions (currentTestResult (testResults rep)) \<and>
         lastError (currentTestResult (testResults (registerFailed rep err))) = Some err \<and>
         assertions (currentTestResult (testResults (logAssertResult rep result))) =
           assertions (currentTestResult (testResults rep)) @ [result] \<and>
         failed (currentTestResult (testResults
             (registerFailed (logAssertResult rep result) err))) =
           failed (currentTestResult (testResults rep)) \<and>
         length (assertions (currentTestResult (testResults
             (registerFailed (logAssertResult rep result) err)))) =
           length (assertions (currentTestResult (testResults rep))) + 1"
proof -
  note s = shouldIncrementTotalCount_logAssertResult [of rep result err]
  have f1: "failed (currentTestResult (testResults (registerFailed rep err))) =
           failed (currentTestResult (testResults rep))"
    using assms by (simp add: registerFailed_ledger incrementFailedCount_def setLastError_def)
  have a1: "assertions (currentTestResult (testResults (registerFailed rep err))) =
           assertions (currentTestResult (testResults rep))"
    by (simp add: registerFailed_ledger incrementFailedCount_def setLastError_def)
  have e1: "lastError (currentTestResult (testResults (registerFailed rep err))) = Some err"
    by (simp add: registerFailed_ledger incrementFailedCount_def setLastError_def)
  have a2: "assertions (currentTestResult (testResults (logAssertResult rep result))) =
           assertions (currentTestResult (testResults rep)) @ [result]"
    by (simp add: logAssertResult_def logAssertion_def)
  have f3: "failed (currentTestResult (testResults
             (registerFailed (logAssertResult rep result) err))) =
           failed (currentTestResult (testResults rep))"
    using assms unfolding registerFailed_ledger s
    by (simp add: incrementFailedCount_def setLastError_def logAssertResult_def logAssertion_def)
  have a3: "length (assertions (currentTestResult (testResults
             (registerFailed (logAssertResult rep result) err)))) =
           length (assertions (currentTestResult (testResults rep))) + 1"
    unfolding registerFailed_ledger s
    by (simp add: incrementFailedCount_def setLastError_def logAssertResult_def logAssertion_def)
  from f1 a1 e1 a2 f3 a3 show ?thesis by blast
qed

theorem registerFailed_suppressed_witness:
  "\<not> truthy (shouldIncrementTotalCount (sample_reporter (Some retry_all))
        (sample_error JUndefined JUndefined)) \<and>
   failed (currentTestResult (testResults
      (registerFailed (sample_reporter (Some retry_all)) (sample_error JUndefined JUndefined)))) = 2 \<and>
   assertions (currentTestResult (testResults
      (registerFailed (sample_reporter (Some retry_all)) (sample_error JUndefined JUndefined)))) = [] \<and>
   assertions (currentTestResult (testResults
      (registerFailed (logAssertResult (sample_reporter (Some retry_all)) sample_entry)
         (sample_error JUndefined JUndefined)))) = [sample_entry]"
proof -
  let ?r = "sample_reporter (Some retry_all)"
  let ?e = "sample_error JUndefined JUndefined"
  have h: "\<not> truthy (shouldIncrementTotalCount ?r ?e)"
    by (simp add: shouldIncrementTotalCount_def shouldRetryTestcase_def currentTest_def
          currentTestCase_def sample_reporter_def sample_ledger_def retry_all_def)
  have base: "failed (currentTestResult (testResults ?r)) = 2"
    "assertions (currentTestResult (testResults ?r)) = []"
    by (simp_all add: sample_reporter_def sample_ledger_def sample_result_def)
  note t = registerFailed_suppressed [OF h, of sample_entry]
  have l: "length (assertions (currentTestResult (testResults
      (registerFailed (logAssertResult ?r sample_entry) ?e)))) = 1"
    using t base by simp
  have "assertions (currentTestResult (testResults
      (registerFailed (logAssertResult ?r sample_entry) ?e))) = [sample_entry]"
    by (simp add: registerFailed_ledger incrementFailedCount_def setLastError_def
          logAssertResult_def logAssertion_def base)
  with h t base show ?thesis by simp
qed

section \<open>The failure message\<close>

text \<open>
  C7. With \<open>failed = 2\<close>, \<open>errors = 1\<close>, \<open>passed = 0\<close>, \<open>skipped = 1\<close> and colours switched
  off, \<open>getFailureMessage()\<close> joins the three non-zero phrases and replaces the last
  comma; the group captured after that comma starts with the separator's space and the
  replacement adds a space of its own, so the text ends in \<open>and\<close>, two spaces,
  \<open>1 skipped\<close>, and not in \<open>and 1 skipped\<close>.
\<close>

theorem getFailureMessage_scenario_D:
  "getFailureMessage plain_colors (sample_reporter None) =
     ''2 assertions failed, 1 errors and  1 skipped'' \<and>
   \<not> suffix ''and 1 skipped'' (getFailureMessage plain_colors (sample_reporter None))"
  by (simp add: getFailureMessage_def failureMsg_def sample_reporter_def sample_ledger_def
        sample_result_def plain_colors_def show_int_def show_nat.simps digit_char_def
        suffix_to_prefix)

subsection \<open>The replaced comma in general\<close>

text \<open>
  Whenever two or more phrases are joined and the last one holds no comma, the text ends
  in the word \<open>and\<close>, two spaces and the last phrase; a text without a comma is
  returned as it is.
\<close>

lemma replace_last_comma_at_last:
  "CHR '','' \<notin> set v \<Longrightarrow> replace_last_comma (u @ CHR '','' # v) = u @ '' and '' @ v"
  by (induction u) auto

lemma join_snoc:
  "xs \<noteq> [] \<Longrightarrow> join sep (xs @ [y]) = join sep xs @ sep @ y"
  by (induction sep xs rule: join.induct) auto

lemma replace_last_comma_join:
  assumes "xs \<noteq> []" and "CHR '','' \<notin> set y"
  shows "replace_last_comma (join '', '' (xs @ [y])) = join '', '' xs @ '' and  '' @ y"
proof -
  have "join '', '' (xs @ [y]) = join '', '' xs @ CHR '','' # (CHR '' '' # y)"
    using assms(1) by (simp add: join_snoc)
  moreover have "CHR '','' \<notin> set (CHR '' '' # y)"
    using assms(2) by simp
  ultimately show ?thesis
    by (simp add: replace_last_comma_at_last del: replace_last_comma.simps)
qed

lemma replace_last_comma_no_comma:
  "CHR '','' \<notin> set s \<Longrightarrow> replace_last_comma s = s"
  by (induction s) auto

subsection \<open>Decimal digits\<close>

lemma below_ten_cases:
  assumes "d < 10"
  shows "d = 0 \<or> d = 1 \<or> d = 2 \<or> d = 3 \<or> d = 4 \<or> d = 5 \<or> d = 6 \<or> d = 7 \<or> d = 8 \<or> d = (9::nat)"
  using assms by arith

lemma is_digit_digit_char: "is_digit (digit_char d)"
proof -
  have "d mod 10 < 10" by simp
  from below_ten_cases [OF this] show ?thesis
    unfolding digit_char_def is_digit_def by (elim disjE) simp_all
qed

lemma digit_char_zero:
  assumes "d < 10"
  shows "digit_char d = CHR ''0'' \<longleftrightarrow> d = 0"
  using below_ten_cases [OF assms] unfolding digit_char_def by (elim disjE) simp_all

lemma show_nat_digits: "show_nat n \<noteq> [] \<and> (\<forall>c \<in> set (show_nat n). is_digit c)"
proof (induction n rule: show_nat.induct)
  case (1 n)
  show ?case
  proof (cases "n < 10")
    case True
    then show ?thesis by (simp add: show_nat.simps [of n] is_digit_digit_char)
  next
    case False
    with 1 show ?thesis by (simp add: show_nat.simps [of n] is_digit_digit_char)
  qed
qed

lemma zero_count_in_append:
  "zero_count_in d (xs @ ys) \<longleftrightarrow>
     zero_count_in d xs \<or> zero_count_in (if xs = [] then d else is_digit (last xs)) ys"
  by (induction xs arbitrary: d) auto

lemma show_nat_no_leading_zero: "0 < n \<Longrightarrow> \<not> zero_count_in False (show_nat n)"
proof (induction n rule: show_nat.induct)
  case (1 n)
  show ?case
  proof (cases "n < 10")
    case True
    with "1.prems" show ?thesis by (simp add: show_nat.simps [of n] digit_char_zero)
  next
    case False
    then have "0 < n div 10" by simp
    with 1 False have ih: "\<not> zero_count_in False (show_nat (n div 10))" by simp
    have "is_digit (last (show_nat (n div 10)))"
      using show_nat_digits [of "n div 10"] last_in_set by blast
    with ih False show ?thesis
      by (simp add: show_nat.simps [of n] zero_count_in_append show_nat_digits)
  qed
qed

lemma show_nat_eq_zero: "show_nat n = ''0'' \<longleftrightarrow> n = 0"
proof (cases "n < 10")
  case True
  then show ?thesis using digit_char_zero [of n] by (simp add: show_nat.simps [of n])
next
  case False
  then have "show_nat n = show_nat (n div 10) @ [digit_char (n mod 10)]"
    by (simp add: show_nat.simps [of n])
  moreover have "show_nat (n div 10) \<noteq> []" by (simp add: show_nat_digits)
  ultimately have "length (show_nat n) \<noteq> 1" by simp
  with False show ?thesis by auto
qed

lemma show_int_eq_zero: "0 < i \<Longrightarrow> show_int i \<noteq> ''0''"
  by (simp add: show_int_def show_nat_eq_zero)

lemma show_int_no_leading_zero: "0 < i \<Longrightarrow> \<not> zero_count_in False (show_int i)"
  by (simp add: show_int_def show_nat_no_leading_zero)

subsection \<open>Joining and replacing keep a text free of zero counts\<close>

lemma zero_count_in_replace_last_comma:
  "zero_count_in d (replace_last_comma s) = zero_count_in d s"
  by (induction s arbitrary: d) (simp_all add: is_digit_def)

lemma zero_count_in_join:
  "(\<forall>s \<in> set segs. \<not> zero_count_in False s) \<Longrightarrow> \<not> zero_count_in False (join '', '' segs)"
  by (induction "'', ''" segs rule: join.induct)
     (simp_all add: zero_count_in_append is_digit_def)

subsection \<open>The pushed phrases\<close>

lemma failureMsg_cases:
  "s \<in> set (failureMsg col r) \<Longrightarrow>
     (0 < failed r \<and> s = red col (failed r) @ '' assertions failed'') \<or>
     (0 < errors r \<and> s = red col (errors r) @ '' errors'') \<or>
     (0 < passedCount r \<and> s = green col (passedCount r) @ '' passed'') \<or>
     (0 < skipped r \<and> s = blue col (skipped r) @ '' skipped'')"
  by (auto simp: failureMsg_def split: if_splits)

lemma failureMsg_plain_no_leading_zero:
  "s \<in> set (failureMsg plain_colors r) \<Longrightarrow> \<not> zero_count_in False s"
  by (drule failureMsg_cases)
     (auto simp: plain_colors_def zero_count_in_append show_int_no_leading_zero is_digit_def)

lemma failureMsg_zero_failed:
  "failed r = 0 \<Longrightarrow> s \<in> set (failureMsg col r) \<Longrightarrow> \<not> suffix '' assertions failed'' s"
  by (drule failureMsg_cases) (auto simp: suffix_to_prefix)

lemma failureMsg_zero_errors:
  "errors r = 0 \<Longrightarrow> s \<in> set (failureMsg col r) \<Longrightarrow> \<not> suffix '' errors'' s"
  by (drule failureMsg_cases) (auto simp: suffix_to_prefix)

lemma failureMsg_zero_passed:
  "passedCount r = 0 \<Longrightarrow> s \<in> set (failureMsg col r) \<Longrightarrow> \<not> suffix '' passed'' s"
  by (drule failureMsg_cases) (auto simp: suffix_to_prefix)

lemma failureMsg_zero_skipped:
  "skipped r = 0 \<Longrightarrow> s \<in> set (failureMsg col r) \<Longrightarrow> \<not> suffix '' skipped'' s"
  by (drule failureMsg_cases) (auto simp: suffix_to_prefix)

lemma failureMsg_plain_no_zero_segment:
  "''0 assertions failed'' \<notin> set (failureMsg plain_colors r)"
  "''0 errors'' \<notin> set (failureMsg plain_colors r)"
  "''0 passed'' \<notin> set (failureMsg plain_colors r)"
  "''0 skipped'' \<notin> set (failureMsg plain_colors r)"
  by (auto dest!: failureMsg_cases
        simp: plain_colors_def show_int_eq_zero show_int_eq_zero [THEN not_sym])

text \<open>
  C10. For every combination of counter values \<open>getFailureMessage()\<close> omits each
  category whose count is zero: whatever the colour functions, no pushed phrase ends in
  that category's wording. With colours off none of the phrases \<open>0 assertions failed\<close>,
  \<open>0 errors\<close>, \<open>0 passed\<close>, \<open>0 skipped\<close> is pushed, and the rendered string (the phrases
  joined, the last comma replaced) holds no number that starts with the digit zero, so
  no zero count.
\<close>

theorem getFailureMessage_omits_zero_counts:
  "(failed (currentTestResult (testResults rep)) = 0 \<longrightarrow>
      (\<forall>s \<in> set (failureMsg col (currentTestResult (testResults rep))).
         \<not> suffix '' assertions failed'' s))
   \<and> (errors (currentTestResult (testResults rep)) = 0 \<longrightarrow>
      (\<forall>s \<in> set (failureMsg col (currentTestResult (testResults rep))).
         \<not> suffix '' errors'' s))
   \<and> (passedCount (currentTestResult (testResults rep)) = 0 \<longrightarrow>
      (\<forall>s \<in> set (failureMsg col (currentTestResult (testResults rep))).
         \<not> suffix '' passed'' s))
   \<and> (skipped (currentTestResult (testResults rep)) = 0 \<longrightarrow>
      (\<forall>s \<in> set (failureMsg col (currentTestResult (testResults rep))).
         \<not> suffix '' skipped'' s))
   \<and> ''0 assertions failed'' \<notin> set (failureMsg plain_colors (currentTestResult (testResults rep)))
   \<and> ''0 errors'' \<notin> set (failureMsg plain_colors (currentTestResult (testResults rep)))
   \<and> ''0 passed'' \<notin> set (failureMsg plain_colors (currentTestResult (testResults rep)))
   \<and> ''0 skipped'' \<notin> set (failureMsg plain_colors (currentTestResult (testResults rep)))
   \<and> getFailureMessage col rep =
        replace_last_comma (join '', '' (failureMsg col (currentTestResult (testResults rep))))
   \<and> \<not> zero_count_in False (getFailureMessage plain_colors rep)"
proof -
  have "\<not> zero_count_in False (getFailureMessage plain_colors rep)"
    unfolding getFailureMessage_def zero_count_in_replace_last_comma
    by (rule zero_count_in_join) (simp add: failureMsg_plain_no_leading_zero)
  then show ?thesis
    using failureMsg_zero_failed failureMsg_zero_errors failureMsg_zero_passed
      failureMsg_zero_skipped failureMsg_plain_no_zero_segment
    by (simp add: getFailureMessage_def)
qed

theorem getFailureMessage_omits_zero_counts_witness:
  "passedCount (currentTestResult (testResults (sample_reporter None))) = 0 \<and>
   failureMsg plain_colors (currentTestResult (testResults (sample_reporter None))) =
     [''2 assertions failed'', ''1 errors'', ''1 skipped''] \<and>
   \<not> suffix '' passed'' ''2 assertions failed'' \<and>
   \<not> suffix '' passed'' ''1 errors'' \<and>
   \<not> suffix '' passed'' ''1 skipped'' \<and>
   \<not> zero_count_in False (getFailureMessage plain_colors (sample_reporter None))"
proof -
  have z: "passedCount (currentTestResult (testResults (sample_reporter None))) = 0"
    by (simp add: sample_reporter_def sample_ledger_def sample_result_def)
  have f: "failureMsg plain_colors (currentTestResult (testResults (sample_reporter None))) =
     [''2 assertions failed'', ''1 errors'', ''1 skipped'']"
    by (simp add: failureMsg_def sample_reporter_def sample_ledger_def sample_result_def
          plain_colors_def show_int_def show_nat.simps digit_char_def)
  from getFailureMessage_omits_zero_counts [of "sample_reporter None" plain_colors] z
  have "(\<forall>s \<in> set (failureMsg plain_colors
                      (currentTestResult (testResults (sample_reporter None)))).
           \<not> suffix '' passed'' s) \<and>
        \<not> zero_count_in False (getFailureMessage plain_colors (sample_reporter None))"
    by blast
  with z f show ?thesis by simp
qed

section \<open>Failure screenshots: saveFailureScreenshot\<close>

text \<open>
  C8, as stated, fails: the file reference is not logged upon completion of the
  request. When the call returns, the promise still waits for the screenshot service,
  and the ledger already holds the file reference; the ledger write precedes the call
  of the service. And with the gate open but no current test, the call derives no file
  name and requests nothing: reading \<open>this.currentTest.module\<close> throws.
\<close>

theorem saveFailureScreenshot_eager_log_counterexample:
  "snd (snd (saveFailureScreenshot sample_getFileName (sample_reporter None) False)) =
     AwaitingService ''shots/sampleModule/demoTest-test-3_FAILED.png'' \<and>
   screenshotFiles (currentTestResult (testResults
     (fst (saveFailureScreenshot sample_getFileName (sample_reporter None) False)))) =
     [''shots/sampleModule/demoTest-test-3_FAILED.png''] \<and>
   fst (snd (saveFailureScreenshot sample_getFileName (sample_reporter None) False)) =
     [LedgerLogScreenshot ''shots/sampleModule/demoTest-test-3_FAILED.png'',
      ServiceSaveScreenshot ''shots/sampleModule/demoTest-test-3_FAILED.png''] \<and>
   shouldTakeFailureScreenshot sample_reporter_no_test \<and>
   saveFailureScreenshot sample_getFileName sample_reporter_no_test False =
     (sample_reporter_no_test, [], Rejected TypeError)"
  by (simp add: saveFailureScreenshot_def shouldTakeFailureScreenshot_def unitTestsMode_def
        sample_reporter_no_test_def sample_reporter_def sample_settings_def sample_ledger_def
        sample_result_def currentTest_def currentTestCase_def sample_getFileName_def
        logScreenshotFile_def show_int_def show_nat.simps digit_char_def Let_def)

text \<open>
  C8, amended. When the run is not in unit-test mode, screenshots are enabled with
  \<open>on_failure\<close> set and a current test exists, \<open>saveFailureScreenshot(isError)\<close> derives
  the file name from \<open>{module}/{testName}-test-{tests}\<close>, appends it to the ledger's
  screenshot log at once, then requests the screenshot from the service for that file
  name, and returns a promise that the service's completion resolves. When the gate is
  false it changes nothing in the ledger, calls no service and returns a resolved
  promise.
\<close>

theorem saveFailureScreenshot_behaviour:
  "(\<not> unitTestsMode rep \<and> screenshots (settings rep) = Some s \<and> enabled s \<and> on_failure s \<and>
    resultsCurrentTest (testResults rep) = Some tc \<longrightarrow>
      (let fileName = getFileName
             (moduleKey (testResults rep) @ ''/'' @ testName tc @ ''-test-'' @
              show_int (tests (currentTestResult (testResults rep))))
             isError (path s)
       in saveFailureScreenshot getFileName rep isError =
            (rep\<lparr>testResults := logScreenshotFile fileName (testResults rep)\<rparr>,
             [LedgerLogScreenshot fileName, ServiceSaveScreenshot fileName],
             AwaitingService fileName) \<and>
          screenshotFiles (currentTestResult (testResults
              (fst (saveFailureScreenshot getFileName rep isError)))) =
            screenshotFiles (currentTestResult (testResults rep)) @ [fileName] \<and>
          serviceCompletes (snd (snd (saveFailureScreenshot getFileName rep isError))) = Resolved))
   \<and> (unitTestsMode rep \<or> screenshots (settings rep) = None \<or>
       (\<exists>s. screenshots (settings rep) = Some s \<and> \<not> (enabled s \<and> on_failure s)) \<longrightarrow>
      saveFailureScreenshot getFileName rep isError = (rep, [], Resolved))"
  by (auto simp: saveFailureScreenshot_def shouldTakeFailureScreenshot_def currentTest_def
        currentTestCase_def logScreenshotFile_def Let_def)

theorem saveFailureScreenshot_behaviour_witness:
  "\<not> unitTestsMode (sample_reporter None) \<and>
   saveFailureScreenshot sample_getFileName (sample_reporter None) True =
     ((sample_reporter None)\<lparr>testResults :=
         logScreenshotFile ''shots/sampleModule/demoTest-test-3_ERROR.png'' sample_ledger\<rparr>,
      [LedgerLogScreenshot ''shots/sampleModule/demoTest-test-3_ERROR.png'',
       ServiceSaveScreenshot ''shots/sampleModule/demoTest-test-3_ERROR.png''],
      AwaitingService ''shots/sampleModule/demoTest-test-3_ERROR.png'') \<and>
   unitTestsMode sample_reporter_unit \<and>
   saveFailureScreenshot sample_getFileName sample_reporter_unit True =
     (sample_reporter_unit, [], Resolved)"
proof -
  let ?s = "\<lparr>enabled = True, on_error = False, on_failure = True, path = ''shots''\<rparr>"
  have g: "\<not> unitTestsMode (sample_reporter None)"
    "screenshots (settings (sample_reporter None)) = Some ?s"
    "enabled ?s" "on_failure ?s"
    "resultsCurrentTest (testResults (sample_reporter None)) = Some \<lparr>testName = ''demoTest''\<rparr>"
    by (simp_all add: unitTestsMode_def sample_reporter_def sample_settings_def sample_ledger_def)
  have u: "unitTestsMode sample_reporter_unit"
    by (simp add: unitTestsMode_def sample_reporter_unit_def)
  from saveFailureScreenshot_behaviour
         [of "sample_reporter None" ?s "\<lparr>testName = ''demoTest''\<rparr>" sample_getFileName True] g
  have a: "saveFailureScreenshot sample_getFileName (sample_reporter None) True =
     ((sample_reporter None)\<lparr>testResults :=
         logScreenshotFile ''shots/sampleModule/demoTest-test-3_ERROR.png'' sample_ledger\<rparr>,
      [LedgerLogScreenshot ''shots/sampleModule/demoTest-test-3_ERROR.png'',
       ServiceSaveScreenshot ''shots/sampleModule/demoTest-test-3_ERROR.png''],
      AwaitingService ''shots/sampleModule/demoTest-test-3_ERROR.png'')"
    by (simp add: Let_def sample_reporter_def sample_ledger_def sample_result_def
          sample_getFileName_def show_int_def show_nat.simps digit_char_def)
  from saveFailureScreenshot_behaviour [of sample_reporter_unit _ _ sample_getFileName True] u
  have b: "saveFailureScreenshot sample_getFileName sample_reporter_unit True =
     (sample_reporter_unit, [], Resolved)"
    by blast
  from g(1) a u b show ?thesis by simp
qed

section \<open>The text assertion's handlers\<close>

text \<open>
  C2, as stated, fails: for a negated assertion with a timeout configured, the handler
  for an absent target leaves the \<open>passed\<close> flag false, not true.
\<close>

theorem elementNotFound_negated_counterexample:
  "negate (sample_assertion 1 True) \<and> truthy (waitForMs (sample_assertion 1 True)) \<and>
   passed (elementNotFound (sample_assertion 1 True)) = False"
  by (simp add: sample_assertion_def elementNotFound_def)

text \<open>
  C2, amended. For every negated assertion whose target the remote check reports
  absent, \<open>elementNotFound\<close> sets \<open>passed\<close> to false, as it does for an assertion that
  is not negated; the assertion stays negated and does not pass by absence.
\<close>

theorem elementNotFound_negated_fails:
  "negate a \<Longrightarrow> passed (elementNotFound a) = False \<and> negate (elementNotFound a)"
  by (simp add: elementNotFound_def)

theorem elementNotFound_negated_fails_witness:
  "negate (sample_assertion 1 True) \<and>
   passed (elementNotFound (sample_assertion 1 True)) = False \<and>
   negate (elementNotFound (sample_assertion 1 True))"
proof -
  have n: "negate (sample_assertion 1 True)" by (simp add: sample_assertion_def)
  from elementNotFound_negated_fails [OF n] n show ?thesis by simp
qed

subsection \<open>A negated assertion whose condition is still observed\<close>

lemma onResponse_negated_present:
  "negate a \<Longrightarrow>
   onResponse base (Observed True) a =
     (a\<lparr>passed := False\<rparr>,
      if timeoutBudgetMs a \<le> getElapsedTime base (a\<lparr>passed := False\<rparr>) then FAILED
      else RETRY_SCHEDULED)"
  by (simp add: onResponse_def elementFound_def timeoutBudgetMs_def Let_def)

lemma evaluate_negated_present:
  "negate a \<Longrightarrow> \<forall>p \<in> set polls. pollResponse p = Observed True \<Longrightarrow>
   snd (evaluate conditioned polls a) =
     (if \<exists>p \<in> set polls. timeoutBudgetMs a \<le> pollElapsedMs p then FAILED else EXECUTING) \<and>
   messageParts (fst (evaluate conditioned polls a)) = messageParts a \<and>
   elapsedTime (fst (evaluate conditioned polls a)) = elapsedTime a"
proof (induction polls arbitrary: a)
  case Nil
  then show ?case by simp
next
  case (Cons p polls)
  let ?b = "a\<lparr>retries := pollRetries p\<rparr>"
  let ?a = "?b\<lparr>passed := False\<rparr>"
  have r: "pollResponse p = Observed True"
    using Cons.prems by simp
  have nb: "negate ?b"
    using Cons.prems by simp
  have step: "onResponse (pollBase conditioned p) (pollResponse p) ?b =
     (?a, if timeoutBudgetMs a \<le> pollElapsedMs p then FAILED else RETRY_SCHEDULED)"
    unfolding r onResponse_negated_present [OF nb]
    by (simp add: pollBase_def timeoutBudgetMs_def)
  have ih: "snd (evaluate conditioned polls ?a) =
     (if \<exists>q \<in> set polls. timeoutBudgetMs ?a \<le> pollElapsedMs q then FAILED else EXECUTING) \<and>
     messageParts (fst (evaluate conditioned polls ?a)) = messageParts ?a \<and>
     elapsedTime (fst (evaluate conditioned polls ?a)) = elapsedTime ?a"
    by (rule Cons.IH) (use Cons.prems in simp_all)
  have same: "timeoutBudgetMs ?a = timeoutBudgetMs a"
    by (simp add: timeoutBudgetMs_def)
  show ?case
    using ih unfolding same by (simp add: step)
qed

text \<open>
  C3. A call of \<open>elementFound\<close> on a negated assertion with \<open>retries > 0\<close> leaves
  \<open>passed\<close>, \<open>elapsedTime\<close> and \<open>messageParts\<close>, indeed the whole assertion, unchanged;
  and \<open>elementFound\<close> never writes \<open>passed\<close> at all, so it records no failure. In the
  poll loop, a negated assertion whose condition is still observed is answered by a
  scheduled retry while the elapsed time is below the timeout budget and by \<open>FAILED\<close>
  once it has reached it. Over any run of polls on which the condition is observed every
  time, whatever the retry counter holds at each poll, the state is a terminal failure
  exactly when some poll found the budget exhausted; it is never \<open>PASSED\<close>; while every
  poll is within the budget the assertion is still executing; and \<open>messageParts\<close> and
  \<open>elapsedTime\<close> are as they were.
\<close>

theorem elementFound_negated_retrying_frame:
  "(retries a > 0 \<and> negate a \<longrightarrow>
      passed (elementFound base a) = passed a \<and>
      elapsedTime (elementFound base a) = elapsedTime a \<and>
      messageParts (elementFound base a) = messageParts a \<and>
      elementFound base a = a)
   \<and> passed (elementFound base a) = passed a
   \<and> (negate a \<longrightarrow>
      onResponse base (Observed True) a =
        (a\<lparr>passed := False\<rparr>,
         if timeoutBudgetMs a \<le> getElapsedTime base (a\<lparr>passed := False\<rparr>) then FAILED
         else RETRY_SCHEDULED))
   \<and> (negate a \<and> (\<forall>p \<in> set polls. pollResponse p = Observed True) \<longrightarrow>
      (terminal_failure (snd (evaluate conditioned polls a)) \<longleftrightarrow>
         (\<exists>p \<in> set polls. timeoutBudgetMs a \<le> pollElapsedMs p)) \<and>
      snd (evaluate conditioned polls a) \<noteq> PASSED \<and>
      ((\<forall>p \<in> set polls. pollElapsedMs p < timeoutBudgetMs a) \<longrightarrow>
         snd (evaluate conditioned polls a) = EXECUTING) \<and>
      messageParts (fst (evaluate conditioned polls a)) = messageParts a \<and>
      elapsedTime (fst (evaluate conditioned polls a)) = elapsedTime a)"
proof -
  have frame: "(retries a > 0 \<and> negate a \<longrightarrow>
      passed (elementFound base a) = passed a \<and>
      elapsedTime (elementFound base a) = elapsedTime a \<and>
      messageParts (elementFound base a) = messageParts a \<and>
      elementFound base a = a)
   \<and> passed (elementFound base a) = passed a"
    by (simp add: elementFound_def Let_def)
  have run: "negate a \<and> (\<forall>p \<in> set polls. pollResponse p = Observed True) \<longrightarrow>
      (terminal_failure (snd (evaluate conditioned polls a)) \<longleftrightarrow>
         (\<exists>p \<in> set polls. timeoutBudgetMs a \<le> pollElapsedMs p)) \<and>
      snd (evaluate conditioned polls a) \<noteq> PASSED \<and>
      ((\<forall>p \<in> set polls. pollElapsedMs p < timeoutBudgetMs a) \<longrightarrow>
         snd (evaluate conditioned polls a) = EXECUTING) \<and>
      messageParts (fst (evaluate conditioned polls a)) = messageParts a \<and>
      elapsedTime (fst (evaluate conditioned polls a)) = elapsedTime a"
  proof (intro impI)
    assume h: "negate a \<and> (\<forall>p \<in> set polls. pollResponse p = Observed True)"
    then have e: "snd (evaluate conditioned polls a) =
         (if \<exists>p \<in> set polls. timeoutBudgetMs a \<le> pollElapsedMs p then FAILED else EXECUTING)"
      and m: "messageParts (fst (evaluate conditioned polls a)) = messageParts a"
      and t: "elapsedTime (fst (evaluate conditioned polls a)) = elapsedTime a"
      using evaluate_negated_present [of a polls conditioned] by blast+
    show "(terminal_failure (snd (evaluate conditioned polls a)) \<longleftrightarrow>
         (\<exists>p \<in> set polls. timeoutBudgetMs a \<le> pollElapsedMs p)) \<and>
      snd (evaluate conditioned polls a) \<noteq> PASSED \<and>
      ((\<forall>p \<in> set polls. pollElapsedMs p < timeoutBudgetMs a) \<longrightarrow>
         snd (evaluate conditioned polls a) = EXECUTING) \<and>
      messageParts (fst (evaluate conditioned polls a)) = messageParts a \<and>
      elapsedTime (fst (evaluate conditioned polls a)) = elapsedTime a"
    proof (cases "\<exists>p \<in> set polls. timeoutBudgetMs a \<le> pollElapsedMs p")
      case True
      then have "\<not> (\<forall>p \<in> set polls. pollElapsedMs p < timeoutBudgetMs a)"
        by (meson not_less)
      with True m t show ?thesis
        unfolding e terminal_failure_def by simp
    next
      case False
      with m t show ?thesis
        unfolding e terminal_failure_def by simp
    qed
  qed
  from frame run onResponse_negated_present [of a base] show ?thesis by blast
qed

theorem elementFound_negated_retrying_frame_witness:
  "retries (sample_assertion 1 True) > 0 \<and> negate (sample_assertion 1 True) \<and>
   elementFound sample_base (sample_assertion 1 True) = sample_assertion 1 True \<and>
   timeoutBudgetMs (sample_assertion 0 True) = 1000 \<and>
   snd (evaluate True [sample_poll 100 0 (Observed True), sample_poll 600 1 (Observed True)]
          (sample_assertion 0 True)) = EXECUTING \<and>
   terminal_failure
     (snd (evaluate True [sample_poll 100 0 (Observed True), sample_poll 600 1 (Observed True),
                          sample_poll 1100 2 (Observed True)] (sample_assertion 0 True)))"
proof -
  let ?r = "sample_assertion 1 True"
  let ?a = "sample_assertion 0 True"
  let ?early = "[sample_poll 100 0 (Observed True), sample_poll 600 1 (Observed True)]"
  let ?late = "[sample_poll 100 0 (Observed True), sample_poll 600 1 (Observed True),
                sample_poll 1100 2 (Observed True)]"
  have h: "retries ?r > 0 \<and> negate ?r" and n: "negate ?a"
    by (simp_all add: sample_assertion_def)
  have b: "timeoutBudgetMs ?a = 1000"
    by (simp add: timeoutBudgetMs_def sample_assertion_def)
  have p1: "\<forall>p \<in> set ?early. pollResponse p = Observed True"
    and p2: "\<forall>p \<in> set ?late. pollResponse p = Observed True"
    by (simp_all add: sample_poll_def)
  have w1: "\<forall>p \<in> set ?early. pollElapsedMs p < timeoutBudgetMs ?a"
    by (simp add: b sample_poll_def)
  have w2: "\<exists>p \<in> set ?late. timeoutBudgetMs ?a \<le> pollElapsedMs p"
    by (simp add: b sample_poll_def)
  have f: "elementFound sample_base ?r = ?r"
    using elementFound_negated_retrying_frame [of ?r sample_base "[]" True] h by blast
  have e: "snd (evaluate True ?early ?a) = EXECUTING"
    using elementFound_negated_retrying_frame [of ?a sample_base ?early True] n p1 w1 by blast
  have l: "terminal_failure (snd (evaluate True ?late ?a))"
    using elementFound_negated_retrying_frame [of ?a sample_base ?late True] n p2 w2 by blast
  from h f b e l show ?thesis by blast
qed




text \<open>
  C5, as stated, fails twice. A negated assertion that has passed after a retry, with a
  timeout configured, gets no annotation; and an assertion without a condition gets the
  annotation without the words \<open>condition was met\<close>.
\<close>

theorem elementFound_annotation_counterexample:
  "passed (sample_assertion 1 True) \<and> truthy (waitForMs (sample_assertion 1 True)) \<and>
   messageParts (elementFound sample_base (sample_assertion 1 True)) =
     messageParts (sample_assertion 1 True) \<and>
   passed (sample_assertion 0 False) \<and> truthy (waitForMs (sample_assertion 0 False)) \<and>
   messageParts (elementFound sample_base_unconditioned (sample_assertion 0 False)) =
     messageParts (sample_assertion 0 False) @ ['' -  in 250ms'']"
  by (simp add: sample_assertion_def elementFound_def sample_base_def
        sample_base_unconditioned_def Let_def show_int_def show_nat.simps digit_char_def)

text \<open>
  C5, amended. When \<open>elementFound\<close> runs on an assertion that has passed with a
  non-zero \<open>waitForMs\<close>, and the assertion is not a negated one with \<open>retries > 0\<close>, it
  stores the measured elapsed time and appends one message part: \<open>" - "\<close>, then
  \<open>condition was met\<close> if the assertion has a condition and nothing otherwise, then
  \<open>" in <elapsedMs>ms"\<close>. In every other case it leaves the assertion as it is.
\<close>

theorem elementFound_annotation:
  "(passed a \<and> truthy (waitForMs a) \<and> \<not> (retries a > 0 \<and> negate a) \<longrightarrow>
      messageParts (elementFound base a) =
        messageParts a @
          ['' - '' @ (if hasCondition base a then ''condition was met'' else []) @
           '' in '' @ show_int (getElapsedTime base a) @ ''ms''] \<and>
      elapsedTime (elementFound base a) = JNum (getElapsedTime base a) \<and>
      passed (elementFound base a))
   \<and> (\<not> (passed a \<and> truthy (waitForMs a)) \<or> (retries a > 0 \<and> negate a) \<longrightarrow>
      elementFound base a = a)"
  by (auto simp: elementFound_def Let_def)

theorem elementFound_annotation_witness:
  "passed (sample_assertion 0 False) \<and> truthy (waitForMs (sample_assertion 0 False)) \<and>
   \<not> (retries (sample_assertion 0 False) > 0 \<and> negate (sample_assertion 0 False)) \<and>
   messageParts (elementFound sample_base (sample_assertion 0 False)) =
     [''Expected element <%s> text to'', '' - condition was met in 250ms''] \<and>
   elapsedTime (elementFound sample_base (sample_assertion 0 False)) = JNum 250"
proof -
  have h: "passed (sample_assertion 0 False) \<and> truthy (waitForMs (sample_assertion 0 False)) \<and>
    \<not> (retries (sample_assertion 0 False) > 0 \<and> negate (sample_assertion 0 False))"
    by (simp add: sample_assertion_def)
  from elementFound_annotation [of "sample_assertion 0 False" sample_base] h
  have "messageParts (elementFound sample_base (sample_assertion 0 False)) =
        messageParts (sample_assertion 0 False) @
          ['' - '' @ (if hasCondition sample_base (sample_assertion 0 False)
                      then ''condition was met'' else []) @
           '' in '' @ show_int (getElapsedTime sample_base (sample_assertion 0 False)) @ ''ms''] \<and>
      elapsedTime (elementFound sample_base (sample_assertion 0 False)) =
        JNum (getElapsedTime sample_base (sample_assertion 0 False))"
    by blast
  with h show ?thesis
    by (simp add: sample_assertion_def sample_base_def show_int_def show_nat.simps digit_char_def)
qed

end
